theory Spec2Isabelle
  imports Complex_Main
begin

section \<open>Ride booking and seat inventory\<close>

text \<open>
  The model follows \<^verbatim>\<open>backend/models/Ride.js\<close>, \<^verbatim>\<open>backend/models/Booking.js\<close>,
  \<^verbatim>\<open>backend/controllers/rideController.js\<close> and
  \<^verbatim>\<open>backend/controllers/ratingController.js\<close>.

  Conventions.
  \<^item> Object ids (users, rides, bookings) are natural numbers.
  \<^item> A \<^verbatim>\<open>Date\<close> is its number of milliseconds since the epoch, an \<open>int\<close>; every operation
    takes the current instant \<open>now\<close> (the value of \<^verbatim>\<open>new Date()\<close>) as an argument.
  \<^item> Stored seat counts are integers; prices, ratings and the seat count of a request
    are JavaScript numbers, modelled as rationals.
  \<^item> A string is a list of code units below 256.
  \<^item> A controller's response is a value of \<open>error + 'a\<close>; every operation returns its
    response together with the resulting database, so that ``nothing was written'' is a
    statement about the returned database and not a property of the type.
\<close>

subsection \<open>Documents\<close>

type_synonym user_id = nat
type_synonym ride_id = nat
type_synonym booking_id = nat
type_synonym instant = int

datatype ride_status = Active | Completed | Cancelled | Full | InProgress | Expired

datatype passenger_status = PConfirmed | PPending | PCancelled | PNoShow

datatype booking_status = BPending | BConfirmed | BCancelled | BCompleted | BRejected

datatype payment_status = PayPending | PayPaid | PayFailed | PayRefunded

text \<open>An entry of \<^verbatim>\<open>ride.passengers\<close>. Its \<^verbatim>\<open>status\<close> defaults to \<^verbatim>\<open>'confirmed'\<close>.\<close>

record passenger =
  user :: user_id
  seats :: int
  pickup :: "string option"
  pstatus :: passenger_status
  booking :: booking_id

record ride =
  rid :: ride_id
  driver :: user_id
  date :: instant
  departureTime :: string
  availableSeats :: int
  pricePerSeat :: rat
  passengers :: "passenger list"
  status :: ride_status
  rideCompletedAt :: "instant option"

text \<open>
  The nested paths \<^verbatim>\<open>driverRating\<close> and \<^verbatim>\<open>passengerRating\<close> of a booking: a rating, a
  comment and a date, each \<open>None\<close> while it is not set.
\<close>

record rating_sub =
  rvalue :: "rat option"
  rcomment :: "string option"
  ratedAt :: "instant option"

text \<open>
  A booking. \<^verbatim>\<open>submitRating\<close> also assigns \<^verbatim>\<open>driverReview\<close>, \<^verbatim>\<open>driverRatedAt\<close> and
  their \<^verbatim>\<open>passenger\<close> counterparts, which are no paths of the schema and are not stored.
\<close>

record booking_doc =
  bid :: booking_id
  bride :: ride_id
  bpassenger :: user_id
  seatsBooked :: int
  totalPrice :: rat
  pickupPoint :: string
  bstatus :: booking_status
  paymentStatus :: payment_status
  bookingDate :: instant
  driverRating :: rating_sub
  passengerRating :: rating_sub

record db =
  rides :: "ride list"
  bookings :: "booking_doc list"

text \<open>
  The kinds of failure response. Each controller branch that answers with an error maps
  to one constructor:
  \<^item> \<open>ValidationError\<close>: 400 on a malformed request (seats, pickup point, rating fields);
  \<^item> \<open>NotFound\<close>: 404;
  \<^item> \<open>Forbidden\<close>: 403;
  \<^item> \<open>InvalidState\<close>: 400 ``Cannot book this ride. Ride is ...'';
  \<^item> \<open>CapacityExceeded\<close>: 400 ``Not enough seats available ...'';
  \<^item> \<open>OwnRide\<close>: 400 ``Cannot book your own ride'';
  \<^item> \<open>DuplicatePassenger\<close>: 400 ``You already have a booking for this ride'';
  \<^item> \<open>NotEligible\<close>: 400 ``Can only rate completed rides'';
  \<^item> \<open>AlreadyRated\<close>: 400 ``You have already rated this driver/passenger'';
  \<^item> \<open>ServerError\<close>: 500, the \<^verbatim>\<open>catch\<close> block of a controller.
  No branch of \<^verbatim>\<open>cancelBooking\<close> answers that the cancellation window is closed;
  \<open>CancellationWindowClosed\<close> is listed so that the absence can be stated.
\<close>

datatype error =
    ValidationError | NotFound | Forbidden | InvalidState | CapacityExceeded | OwnRide
  | DuplicatePassenger | NotEligible | AlreadyRated | CancellationWindowClosed | ServerError

subsection \<open>Ride virtuals and methods (Ride.js)\<close>

definition bookedSeats :: "ride \<Rightarrow> int" where
  "bookedSeats r =
     foldl (\<lambda>total p. total + seats p) 0
       (filter (\<lambda>p. pstatus p \<in> {PConfirmed, PPending}) (passengers r))"

definition remainingSeats :: "ride \<Rightarrow> int" where
  "remainingSeats r = availableSeats r - bookedSeats r"

definition isFull :: "ride \<Rightarrow> bool" where
  "isFull r = (remainingSeats r \<le> 0)"

text \<open>
  \<^verbatim>\<open>parseInt\<close> on a string: leading white space is skipped, a sign is read, a
  \<^verbatim>\<open>0x\<close> prefix selects base 16, and the longest prefix of digits is the value;
  \<open>None\<close> is \<^verbatim>\<open>NaN\<close>. White space below code unit 256 is tab, line feed, vertical
  tab, form feed, carriage return, space and the no-break space.
\<close>

definition isSpace :: "char \<Rightarrow> bool" where
  "isSpace c = (c \<in> {CHR '' '', CHR 0x09, CHR 0x0A, CHR 0x0B, CHR 0x0C, CHR 0x0D, CHR 0xA0})"

definition digitVal :: "char \<Rightarrow> nat option" where
  "digitVal c =
     (let n = of_char c :: nat in
      if 48 \<le> n \<and> n \<le> 57 then Some (n - 48)
      else if 97 \<le> n \<and> n \<le> 102 then Some (n - 87)
      else if 65 \<le> n \<and> n \<le> 70 then Some (n - 55)
      else None)"

fun readDigits :: "nat \<Rightarrow> string \<Rightarrow> int option \<Rightarrow> int option" where
  "readDigits radix [] acc = acc"
| "readDigits radix (c # cs) acc =
     (case digitVal c of
        None \<Rightarrow> acc
      | Some d \<Rightarrow>
          if d < radix
          then readDigits radix cs (Some ((case acc of None \<Rightarrow> 0 | Some a \<Rightarrow> a) * int radix + int d))
          else acc)"

definition parseUnsigned :: "string \<Rightarrow> int option" where
  "parseUnsigned s =
     (case s of
        c # x # rest \<Rightarrow>
          if c = CHR ''0'' \<and> (x = CHR ''x'' \<or> x = CHR ''X'')
          then readDigits 16 rest None
          else readDigits 10 s None
      | _ \<Rightarrow> readDigits 10 s None)"

definition parseInt :: "string \<Rightarrow> int option" where
  "parseInt s =
     (case dropWhile isSpace s of
        [] \<Rightarrow> None
      | c # cs \<Rightarrow>
          if c = CHR ''-'' then map_option uminus (parseUnsigned cs)
          else if c = CHR ''+'' then parseUnsigned cs
          else parseUnsigned (c # cs))"

text \<open>\<^verbatim>\<open>s.split(':')\<close>: the pieces between colons, at least one piece.\<close>

fun splitColon :: "string \<Rightarrow> string list" where
  "splitColon [] = [[]]"
| "splitColon (c # cs) =
     (if c = CHR '':'' then [] # splitColon cs
      else (case splitColon cs of
              [] \<Rightarrow> [[c]]
            | w # ws \<Rightarrow> (c # w) # ws))"

text \<open>
  \<^verbatim>\<open>d.setHours(h, m)\<close> on the instant \<open>t\<close>, the server's time zone taken to be UTC:
  the day, the seconds and the milliseconds of \<open>t\<close> are kept, hour and minute are
  replaced. A \<^verbatim>\<open>NaN\<close> argument, or a result outside the range of \<^verbatim>\<open>Date\<close>, gives
  the invalid date \<open>None\<close>.
\<close>

definition setHours :: "instant \<Rightarrow> int option \<Rightarrow> int option \<Rightarrow> instant option" where
  "setHours t h m =
     (case h of
        None \<Rightarrow> None
      | Some hh \<Rightarrow>
          (case m of
             None \<Rightarrow> None
           | Some mm \<Rightarrow>
               (let t' = t - t mod 86400000 + hh * 3600000 + mm * 60000 + t mod 60000
                in if \<bar>t'\<bar> \<le> 8640000000000000 then Some t' else None)))"

text \<open>The virtual \<^verbatim>\<open>isPast\<close>; a comparison with an invalid date is false.\<close>

definition isPast :: "instant \<Rightarrow> ride \<Rightarrow> bool" where
  "isPast now r =
     (let parts = splitColon (departureTime r);
          hours = parseInt (hd parts);
          minutes = (case tl parts of [] \<Rightarrow> None | x # _ \<Rightarrow> parseInt x)
      in case setHours (date r) hours minutes of
           None \<Rightarrow> False
         | Some rideDateTime \<Rightarrow> rideDateTime < now)"

definition updateStatus :: "instant \<Rightarrow> ride \<Rightarrow> ride" where
  "updateStatus now r =
     (let r1 = (if isFull r then r\<lparr>status := Full\<rparr>
                else if status r = Full \<and> \<not> isFull r then r\<lparr>status := Active\<rparr>
                else r)
      in if isPast now r1 \<and> status r1 = Active
         then r1\<lparr>status := Completed, rideCompletedAt := Some now\<rparr>
         else r1)"

text \<open>
  The departure instant as \<^verbatim>\<open>isPast\<close> and \<^verbatim>\<open>canBeCancelled\<close> of Ride.js compute it:
  the ride's \<^verbatim>\<open>date\<close> with hour and minute taken from \<^verbatim>\<open>departureTime\<close>.
\<close>

definition rideDateTime :: "ride \<Rightarrow> instant option" where
  "rideDateTime r =
     (let parts = splitColon (departureTime r);
          hours = parseInt (hd parts);
          minutes = (case tl parts of [] \<Rightarrow> None | x # _ \<Rightarrow> parseInt x)
      in setHours (date r) hours minutes)"

text \<open>
  The hours from \<open>now\<close> to the departure instant, \<^verbatim>\<open>hoursUntilRide\<close> of
  \<^verbatim>\<open>rideSchema.methods.canBeCancelled\<close>; \<open>None\<close> is \<^verbatim>\<open>NaN\<close>.
\<close>

definition hoursUntilDeparture :: "instant \<Rightarrow> ride \<Rightarrow> rat option" where
  "hoursUntilDeparture now r =
     map_option (\<lambda>t. of_int (t - now) / (1000 * 60 * 60)) (rideDateTime r)"

definition Ride_canBeCancelled :: "instant \<Rightarrow> ride \<Rightarrow> bool" where
  "Ride_canBeCancelled now r =
     (case hoursUntilDeparture now r of
        None \<Rightarrow> False
      | Some h \<Rightarrow> h > 2 \<and> status r = Active)"

subsection \<open>Booking methods (Booking.js)\<close>

text \<open>
  Both methods read the ride through \<^verbatim>\<open>this.populated('ride') ? this.ride.date : null\<close>.
  The path is not populated, or populated with no document found (the find hook of
  Ride.js hides a cancelled ride), where \<^verbatim>\<open>this.ride\<close> is \<^verbatim>\<open>null\<close> and reading its date
  throws, or populated with the ride. A result \<open>None\<close> is the thrown \<^verbatim>\<open>TypeError\<close>.
\<close>

datatype populated_ride = NotPopulated | PopulatedNull | Populated ride

text \<open>
  The cancellation deadline is the ride's \<^verbatim>\<open>date\<close> with its hour decreased by one, in
  UTC an hour earlier.
\<close>

definition canBeCancelled :: "instant \<Rightarrow> booking_doc \<Rightarrow> populated_ride \<Rightarrow> bool option" where
  "canBeCancelled now b populated =
     (case populated of
        NotPopulated \<Rightarrow> Some False
      | PopulatedNull \<Rightarrow> None
      | Populated r \<Rightarrow>
          (let cancellationDeadline = date r - 3600000
           in Some (now < cancellationDeadline \<and>
                    bstatus b \<in> {BPending, BConfirmed} \<and>
                    paymentStatus b \<noteq> PayRefunded)))"



subsection \<open>The document store\<close>

text \<open>
  The collections are lists of documents with unique ids. What the model takes from
  Mongoose:
  \<^item> every \<^verbatim>\<open>find...\<close> query on rides, and so \<^verbatim>\<open>findById\<close>,
    \<^verbatim>\<open>findByIdAndUpdate\<close> and the query behind \<^verbatim>\<open>populate('ride')\<close>, runs the hooks
    \<^verbatim>\<open>rideSchema.pre(/^find/)\<close> of Ride.js: the driver is populated, and the condition
    that the status is not \<^verbatim>\<open>'cancelled'\<close> is added;
  \<^item> every \<^verbatim>\<open>find...\<close> query on bookings runs \<^verbatim>\<open>bookingSchema.pre(/^find/)\<close>, which
    populates the passenger;
  \<^item> \<^verbatim>\<open>toString()\<close> of a populated document is its inspect text, that of an id its 24
    hexadecimal digits;
  \<^item> \<^verbatim>\<open>save()\<close> validates the in-memory document against the validators of its
    schema, then runs the \<^verbatim>\<open>pre('save')\<close> hook, writes, and runs the \<^verbatim>\<open>post('save')\<close>
    hook; a failed validation or hook throws and nothing is written;
  \<^item> \<^verbatim>\<open>ride.save()\<close> writes the changes of the in-memory document: an assigned field
    replaces the stored one, entries pushed on \<^verbatim>\<open>passengers\<close> are appended to the stored
    array;
  \<^item> \<^verbatim>\<open>findByIdAndUpdate\<close> and \<^verbatim>\<open>updateMany\<close> run neither validators nor document
    hooks.
  The users collection is outside the model: every referenced user exists, so that a
  populated user is a document and not \<^verbatim>\<open>null\<close>.
\<close>

fun updateFirst :: "('a \<Rightarrow> bool) \<Rightarrow> ('a \<Rightarrow> 'a) \<Rightarrow> 'a list \<Rightarrow> 'a list" where
  "updateFirst P f [] = []"
| "updateFirst P f (x # xs) = (if P x then f x # xs else x # updateFirst P f xs)"

definition Ride_findById :: "db \<Rightarrow> ride_id \<Rightarrow> ride option" where
  "Ride_findById d i = find (\<lambda>r. rid r = i \<and> status r \<noteq> Cancelled) (rides d)"

definition Ride_findByIdAndUpdate :: "db \<Rightarrow> ride_id \<Rightarrow> (ride \<Rightarrow> ride) \<Rightarrow> db" where
  "Ride_findByIdAndUpdate d i f =
     d\<lparr>rides := updateFirst (\<lambda>r. rid r = i \<and> status r \<noteq> Cancelled) f (rides d)\<rparr>"

definition Booking_findById :: "db \<Rightarrow> booking_id \<Rightarrow> booking_doc option" where
  "Booking_findById d i = find (\<lambda>b. bid b = i) (bookings d)"

text \<open>
  The query of \<^verbatim>\<open>bookRide\<close> for an existing booking:
  \<^verbatim>\<open>{ ride, passenger, status: { $in: ['confirmed', 'pending'] } }\<close>.
\<close>

definition Booking_findActive :: "db \<Rightarrow> ride_id \<Rightarrow> user_id \<Rightarrow> booking_doc option" where
  "Booking_findActive d rideId userId =
     find (\<lambda>b. bride b = rideId \<and> bpassenger b = userId \<and> bstatus b \<in> {BConfirmed, BPending})
       (bookings d)"

definition Booking_updateMany ::
  "db \<Rightarrow> (booking_doc \<Rightarrow> bool) \<Rightarrow> (booking_doc \<Rightarrow> booking_doc) \<Rightarrow> db" where
  "Booking_updateMany d P f = d\<lparr>bookings := map (\<lambda>b. if P b then f b else b) (bookings d)\<rparr>"

text \<open>
  The text of an object id, and the inspect text of the user document populated for it:
  an object literal, of which the model holds the opening brace and the id; the selected
  fields of the user are elided.
\<close>

definition hexChar :: "nat \<Rightarrow> char" where
  "hexChar k = ''0123456789abcdef'' ! (k mod 16)"

fun hexOf :: "nat \<Rightarrow> nat \<Rightarrow> string" where
  "hexOf 0 v = []"
| "hexOf (Suc n) v = hexOf n (v div 16) @ [hexChar v]"

definition idText :: "nat \<Rightarrow> string" where
  "idText u = hexOf 24 u"

definition inspectUser :: "user_id \<Rightarrow> string" where
  "inspectUser u = ''{ _id: new ObjectId('' @ idText u @ ''), ... }''"

text \<open>
  The validators of the schemas on the fields of the model. A string path with
  \<^verbatim>\<open>trim\<close> is trimmed when it is set; a required string must not be empty.
\<close>

definition trim :: "string \<Rightarrow> string" where
  "trim s = rev (dropWhile isSpace (rev (dropWhile isSpace s)))"

definition validRating :: "rating_sub \<Rightarrow> bool" where
  "validRating x =
     ((case rvalue x of None \<Rightarrow> True | Some v \<Rightarrow> 1 \<le> v \<and> v \<le> 5) \<and>
      (case rcomment x of None \<Rightarrow> True | Some c \<Rightarrow> length (trim c) \<le> 500))"

definition validBooking :: "booking_doc \<Rightarrow> bool" where
  "validBooking b =
     (1 \<le> seatsBooked b \<and> seatsBooked b \<le> 10 \<and> 0 \<le> totalPrice b \<and>
      trim (pickupPoint b) \<noteq> [] \<and>
      validRating (driverRating b) \<and> validRating (passengerRating b))"

definition validRide :: "ride \<Rightarrow> bool" where
  "validRide r =
     (departureTime r \<noteq> [] \<and>
      1 \<le> availableSeats r \<and> availableSeats r \<le> 10 \<and>
      10 \<le> pricePerSeat r \<and> pricePerSeat r \<le> 5000 \<and>
      list_all (\<lambda>p. 1 \<le> seats p \<and> seats p \<le> 4) (passengers r))"

text \<open>
  \<^verbatim>\<open>bookingSchema.pre('save')\<close>: for a new document (or one whose \<^verbatim>\<open>seatsBooked\<close>
  changed) the ride is loaded and checked; \<open>False\<close> is a thrown error.
\<close>

definition booking_pre_save :: "db \<Rightarrow> bool \<Rightarrow> booking_doc \<Rightarrow> bool" where
  "booking_pre_save d isNew b =
     (if isNew
      then (case Ride_findById d (bride b) of
              None \<Rightarrow> False
            | Some r \<Rightarrow>
                if availableSeats r < seatsBooked b then False
                else if status r \<noteq> Active then False
                else True)
      else True)"

text \<open>
  \<^verbatim>\<open>bookingSchema.post('save')\<close>: for a document whose status is \<^verbatim>\<open>'confirmed'\<close> the
  stored ride gets \<^verbatim>\<open>$inc: { availableSeats: -seatsBooked }\<close> and
  \<^verbatim>\<open>$addToSet: { passengers: { user, seats, booking } }\<close>. The entry is cast to a
  sub-document with a fresh \<^verbatim>\<open>_id\<close> and the default status, so it equals no stored
  entry and is appended.
\<close>

definition booking_post_save :: "db \<Rightarrow> booking_doc \<Rightarrow> db" where
  "booking_post_save d doc =
     (if bstatus doc = BConfirmed
      then Ride_findByIdAndUpdate d (bride doc)
             (\<lambda>r. r\<lparr>availableSeats := availableSeats r - seatsBooked doc,
                    passengers := passengers r @
                      [\<lparr>user = bpassenger doc, seats = seatsBooked doc, pickup = None,
                        pstatus = PConfirmed, booking = bid doc\<rparr>]\<rparr>)
      else d)"

text \<open>
  The unique partial index of Booking.js on \<^verbatim>\<open>(ride, passenger)\<close> for the documents
  whose status is \<^verbatim>\<open>'pending'\<close> or \<^verbatim>\<open>'confirmed'\<close>: the store refuses to write such a
  document while another one with the same ride and passenger is in the index.
\<close>

definition indexAllows :: "db \<Rightarrow> booking_doc \<Rightarrow> bool" where
  "indexAllows d b =
     (if bstatus b \<in> {BPending, BConfirmed}
      then \<not> list_ex (\<lambda>x. bid x \<noteq> bid b \<and> bride x = bride b \<and> bpassenger x = bpassenger b \<and>
                            bstatus x \<in> {BPending, BConfirmed}) (bookings d)
      else True)"

text \<open>
  \<^verbatim>\<open>booking.save()\<close>; \<open>isNew\<close> stands for
  \<^verbatim>\<open>this.isModified('seatsBooked') || this.isNew\<close>, which holds for a created document
  and for no other save of the controllers. \<open>None\<close> is a rejected save: nothing is
  written and the post-save hook does not run.
\<close>

definition Booking_save :: "db \<Rightarrow> bool \<Rightarrow> booking_doc \<Rightarrow> db option" where
  "Booking_save d isNew b =
     (if validBooking b \<and> booking_pre_save d isNew b \<and> indexAllows d b
      then Some (booking_post_save
                   (d\<lparr>bookings := (if isNew then bookings d @ [b]
                                    else updateFirst (\<lambda>x. bid x = bid b) (\<lambda>_. b) (bookings d))\<rparr>)
                   b)
      else None)"

definition newBookingId :: "db \<Rightarrow> booking_id" where
  "newBookingId d = Suc (foldl max 0 (map bid (bookings d)))"

definition Booking_create :: "db \<Rightarrow> booking_doc \<Rightarrow> (booking_doc \<times> db) option" where
  "Booking_create d bookingData =
     (let b = bookingData\<lparr>bid := newBookingId d\<rparr>
      in map_option (\<lambda>d'. (b, d')) (Booking_save d True b))"

text \<open>
  \<^verbatim>\<open>ride.save()\<close> of the in-memory document \<open>r\<close>; \<open>pushed\<close> are the entries that were
  pushed on \<^verbatim>\<open>r.passengers\<close> since the document was loaded (they are the last entries
  of \<open>passengers r\<close>). \<open>None\<close> is a failed validation: nothing is written.
\<close>

definition Ride_save :: "instant \<Rightarrow> db \<Rightarrow> ride \<Rightarrow> passenger list \<Rightarrow> db option" where
  "Ride_save now d r pushed =
     (if validRide r
      then (let r' = updateStatus now r
            in Some (d\<lparr>rides := updateFirst (\<lambda>s. rid s = rid r)
                        (\<lambda>s. if pushed = [] then r' else r'\<lparr>passengers := passengers s @ pushed\<rparr>)
                        (rides d)\<rparr>))
      else None)"

subsection \<open>rideController.js\<close>

text \<open>
  \<^verbatim>\<open>req.body.seats\<close>, a JSON number or absent. \<^verbatim>\<open>bookRide\<close> tests the value itself
  (\<^verbatim>\<open>!seats || seats < 1\<close>) and then works with \<^verbatim>\<open>parseInt(seats)\<close>, which reads the
  text of the number:
  \<^item> \<open>SeatsNum x\<close> is a number below \<open>10\<^sup>2\<^sup>1\<close>, printed in positional notation, of which
    \<^verbatim>\<open>parseInt\<close> reads the integer part (for \<open>2.5\<close> it gives \<open>2\<close>);
  \<^item> \<open>SeatsHuge t\<close> is a number of at least \<open>10\<^sup>2\<^sup>1\<close>, printed in exponent notation as the
    text \<open>t\<close>, of which \<^verbatim>\<open>parseInt\<close> reads the digits before the point or the exponent
    (for \<^verbatim>\<open>1e+21\<close> it gives \<open>1\<close>).
  \<open>None\<close> is \<^verbatim>\<open>NaN\<close>, with which every comparison is false.
\<close>

datatype seats_value = SeatsAbsent | SeatsNum rat | SeatsHuge string

definition seatsRejected :: "seats_value \<Rightarrow> bool" where
  "seatsRejected s =
     (case s of
        SeatsAbsent \<Rightarrow> True
      | SeatsNum x \<Rightarrow> x = 0 \<or> x < 1
      | SeatsHuge t \<Rightarrow> False)"

definition parseIntSeats :: "seats_value \<Rightarrow> int option" where
  "parseIntSeats s =
     (case s of
        SeatsAbsent \<Rightarrow> None
      | SeatsNum x \<Rightarrow> Some (if 0 \<le> x then \<lfloor>x\<rfloor> else \<lceil>x\<rceil>)
      | SeatsHuge t \<Rightarrow> parseInt t)"

text \<open>The capacity guard \<^verbatim>\<open>ride.availableSeats < parseInt(seats)\<close>.\<close>

definition notEnoughSeats :: "ride \<Rightarrow> seats_value \<Rightarrow> bool" where
  "notEnoughSeats r s =
     (case parseIntSeats s of None \<Rightarrow> False | Some n \<Rightarrow> availableSeats r < n)"

text \<open>
  \<^verbatim>\<open>bookRide\<close>. \<open>pickupPt\<close> is the address of \<^verbatim>\<open>req.body.pickupPoint\<close>, \<open>None\<close> when
  the field is absent. The driver of the ride is populated and the guard compares
  \<^verbatim>\<open>ride.driver._id.toString()\<close> with \<^verbatim>\<open>req.user.id\<close>, that is the two ids. The guards
  are in the order of the source. A seat count that parses to \<^verbatim>\<open>NaN\<close> passes the
  capacity guard and is refused by the validation of the new booking.
\<close>

definition bookRide ::
  "instant \<Rightarrow> db \<Rightarrow> user_id \<Rightarrow> ride_id \<Rightarrow> seats_value \<Rightarrow> string option \<Rightarrow>
   (error + booking_doc) \<times> db" where
  "bookRide now d userId rideId seatsReq pickupPt =
     (if seatsRejected seatsReq then (Inl ValidationError, d)
      else case pickupPt of
        None \<Rightarrow> (Inl ValidationError, d)
      | Some pick \<Rightarrow>
          (case Ride_findById d rideId of
             None \<Rightarrow> (Inl NotFound, d)
           | Some r \<Rightarrow>
               if status r \<noteq> Active then (Inl InvalidState, d)
               else if notEnoughSeats r seatsReq then (Inl CapacityExceeded, d)
               else if driver r = userId then (Inl OwnRide, d)
               else (case Booking_findActive d rideId userId of
                       Some existingBooking \<Rightarrow> (Inl DuplicatePassenger, d)
                     | None \<Rightarrow>
                         (case parseIntSeats seatsReq of
                            None \<Rightarrow> (Inl ServerError, d)
                          | Some n \<Rightarrow>
                              (let bookingData =
                                     \<lparr>bid = 0, bride = rideId, bpassenger = userId,
                                      seatsBooked = n,
                                      totalPrice = of_int n * pricePerSeat r,
                                      pickupPoint = trim pick, bstatus = BConfirmed,
                                      paymentStatus = PayPending, bookingDate = now,
                                      driverRating = \<lparr>rvalue = None, rcomment = None,
                                                       ratedAt = None\<rparr>,
                                      passengerRating = \<lparr>rvalue = None, rcomment = None,
                                                          ratedAt = None\<rparr>\<rparr>
                               in case Booking_create d bookingData of
                                    None \<Rightarrow> (Inl ServerError, d)
                                  | Some (b, d1) \<Rightarrow>
                                      (let entry = \<lparr>user = userId, seats = n,
                                                    pickup = Some pick, pstatus = PConfirmed,
                                                    booking = bid b\<rparr>;
                                           r1 = r\<lparr>availableSeats := availableSeats r - n\<rparr>;
                                           r2 = r1\<lparr>passengers := passengers r1 @ [entry]\<rparr>;
                                           r3 = (if availableSeats r2 = 0
                                                 then r2\<lparr>status := Full\<rparr> else r2)
                                       in case Ride_save now d1 r3 [entry] of
                                            None \<Rightarrow> (Inl ServerError, d1)
                                          | Some d2 \<Rightarrow> (Inr b, d2)))))))"

text \<open>
  \<^verbatim>\<open>cancelRide\<close>. The driver of the loaded ride is populated by the find hook, and the
  guard compares \<^verbatim>\<open>ride.driver.toString()\<close>, the inspect text of that document, with
  \<^verbatim>\<open>req.user.id\<close>. Behind the guard the bookings of the ride whose status is
  \<^verbatim>\<open>'confirmed'\<close> are set to \<^verbatim>\<open>'cancelled'\<close> by \<^verbatim>\<open>updateMany\<close>, the ride's status is
  assigned and the ride is saved.
\<close>

definition cancelRide ::
  "instant \<Rightarrow> db \<Rightarrow> user_id \<Rightarrow> ride_id \<Rightarrow> (error + ride) \<times> db" where
  "cancelRide now d userId rideId =
     (case Ride_findById d rideId of
        None \<Rightarrow> (Inl NotFound, d)
      | Some r \<Rightarrow>
          if inspectUser (driver r) \<noteq> idText userId then (Inl Forbidden, d)
          else (let d1 = Booking_updateMany d
                           (\<lambda>b. bride b = rid r \<and> bstatus b = BConfirmed)
                           (\<lambda>b. b\<lparr>bstatus := BCancelled\<rparr>);
                    r1 = r\<lparr>status := Cancelled\<rparr>
                in case Ride_save now d1 r1 [] of
                     None \<Rightarrow> (Inl ServerError, d1)
                   | Some d2 \<Rightarrow> (Inr (updateStatus now r1), d2)))"

text \<open>
  \<^verbatim>\<open>cancelBooking\<close>. The passenger of the loaded booking is populated by the find hook,
  and the guard compares \<^verbatim>\<open>booking.passenger.toString()\<close>, the inspect text of that
  document, with \<^verbatim>\<open>req.user.id\<close>. Behind the guard the booking's status is assigned and
  the booking is saved; then the ride is loaded again, credited, its roster filtered and
  it is saved (a roster entry holds the id of its user, and the filter compares ids).
  There, when the populate query or the second query finds no ride, reading a field of
  \<^verbatim>\<open>null\<close> throws after the booking was saved.
\<close>

definition cancelBooking ::
  "instant \<Rightarrow> db \<Rightarrow> user_id \<Rightarrow> booking_id \<Rightarrow> (error + booking_doc) \<times> db" where
  "cancelBooking now d userId bookingId =
     (case Booking_findById d bookingId of
        None \<Rightarrow> (Inl NotFound, d)
      | Some b \<Rightarrow>
          if inspectUser (bpassenger b) \<noteq> idText userId then (Inl Forbidden, d)
          else (let populated = Ride_findById d (bride b);
                    b1 = b\<lparr>bstatus := BCancelled\<rparr>
                in case Booking_save d False b1 of
                     None \<Rightarrow> (Inl ServerError, d)
                   | Some d1 \<Rightarrow>
                       (case populated of
                          None \<Rightarrow> (Inl ServerError, d1)
                        | Some pr \<Rightarrow>
                            (case Ride_findById d1 (rid pr) of
                               None \<Rightarrow> (Inl ServerError, d1)
                             | Some r \<Rightarrow>
                                 (let r1 = r\<lparr>availableSeats := availableSeats r + seatsBooked b1\<rparr>;
                                      r2 = r1\<lparr>passengers :=
                                              filter (\<lambda>p. user p \<noteq> userId) (passengers r1)\<rparr>;
                                      r3 = (if status r2 = Full then r2\<lparr>status := Active\<rparr>
                                            else r2)
                                  in case Ride_save now d1 r3 [] of
                                       None \<Rightarrow> (Inl ServerError, d1)
                                     | Some d2 \<Rightarrow> (Inr b1, d2))))))"

subsection \<open>ratingController.js\<close>

text \<open>
  The request body of \<^verbatim>\<open>submitRating\<close>; \<open>None\<close> is an absent field. A rating is
  falsy when it is absent or \<open>0\<close>, a string when it is absent or empty.
\<close>

record rating_body =
  rating :: "rat option"
  review :: "string option"
  ratedUserType :: "string option"

definition truthyNum :: "rat option \<Rightarrow> bool" where
  "truthyNum x = (case x of None \<Rightarrow> False | Some v \<Rightarrow> v \<noteq> 0)"

definition truthyStr :: "string option \<Rightarrow> bool" where
  "truthyStr x = (case x of None \<Rightarrow> False | Some s \<Rightarrow> s \<noteq> [])"

text \<open>
  \<^verbatim>\<open>booking.driverRating\<close> and \<^verbatim>\<open>booking.passengerRating\<close> are nested paths: reading
  one gives an object, whatever is stored in it, and an object is truthy.
\<close>

definition truthyNested :: "rating_sub \<Rightarrow> bool" where
  "truthyNested x = True"

text \<open>
  \<^verbatim>\<open>submitRating\<close>. The booking is loaded with its ride and its passenger populated;
  when the populate query finds no ride, \<^verbatim>\<open>booking.ride.status\<close> throws. The passenger is
  recognised by \<^verbatim>\<open>booking.passenger._id.toString()\<close>, that is by id; the driver by
  \<^verbatim>\<open>booking.ride.driver.toString()\<close>, the inspect text of the driver that the find hook
  of the ride populated. Behind the already-rated guards the controller assigns the
  number to the nested path, which is a cast error of the document, so that
  \<^verbatim>\<open>booking.save()\<close> fails its validation and nothing is written.
\<close>

definition submitRating ::
  "instant \<Rightarrow> db \<Rightarrow> user_id \<Rightarrow> booking_id \<Rightarrow> rating_body \<Rightarrow> (error + booking_doc) \<times> db" where
  "submitRating now d userId bookingId body =
     (if \<not> truthyNum (rating body) then (Inl ValidationError, d)
      else if \<not> truthyStr (ratedUserType body) then (Inl ValidationError, d)
      else if the (rating body) < 1 then (Inl ValidationError, d)
      else if the (rating body) > 5 then (Inl ValidationError, d)
      else if ratedUserType body \<notin> {Some ''driver'', Some ''rider''} then (Inl ValidationError, d)
      else case Booking_findById d bookingId of
        None \<Rightarrow> (Inl NotFound, d)
      | Some b \<Rightarrow>
          (case Ride_findById d (bride b) of
             None \<Rightarrow> (Inl ServerError, d)
           | Some r \<Rightarrow>
               if status r \<noteq> Completed then (Inl NotEligible, d)
               else if ratedUserType body = Some ''driver''
               then (if bpassenger b \<noteq> userId then (Inl Forbidden, d)
                     else if truthyNested (driverRating b) then (Inl AlreadyRated, d)
                     else (Inl ServerError, d))
               else (if inspectUser (driver r) \<noteq> idText userId then (Inl Forbidden, d)
                     else if truthyNested (passengerRating b) then (Inl AlreadyRated, d)
                     else (Inl ServerError, d))))"

subsection \<open>Example data\<close>

text \<open>
  A ride offered by user 10 with three seats at 100 per seat; its \<^verbatim>\<open>date\<close> is midnight
  of day 30 and it departs at 09:30.
\<close>

definition ride0 :: ride where
  "ride0 = \<lparr>rid = 1, driver = 10, date = 2592000000, departureTime = ''09:30'',
            availableSeats = 3, pricePerSeat = 100, passengers = [], status = Active,
            rideCompletedAt = None\<rparr>"

definition db0 :: db where
  "db0 = \<lparr>rides = [ride0], bookings = []\<rparr>"


text \<open>A booking by user \<open>u\<close> on that ride, not rated.\<close>

definition noRating :: rating_sub where
  "noRating = \<lparr>rvalue = None, rcomment = None, ratedAt = None\<rparr>"

definition bookingOf :: "booking_id \<Rightarrow> user_id \<Rightarrow> int \<Rightarrow> booking_status \<Rightarrow> booking_doc" where
  "bookingOf i u n st =
     \<lparr>bid = i, bride = 1, bpassenger = u, seatsBooked = n, totalPrice = of_int n * 100,
      pickupPoint = ''Stop'', bstatus = st, paymentStatus = PayPending, bookingDate = 0,
      driverRating = noRating, passengerRating = noRating\<rparr>"

definition entryOf :: "booking_id \<Rightarrow> user_id \<Rightarrow> int \<Rightarrow> passenger_status \<Rightarrow> passenger" where
  "entryOf i u n st = \<lparr>user = u, seats = n, pickup = Some ''Stop'', pstatus = st, booking = i\<rparr>"

text \<open>User 20 holds one confirmed seat; two seats are left.\<close>

definition dbHeld :: db where
  "dbHeld =
     \<lparr>rides = [ride0\<lparr>availableSeats := 2, passengers := [entryOf 1 20 1 PConfirmed]\<rparr>],
      bookings = [bookingOf 1 20 1 BConfirmed]\<rparr>"

text \<open>User 20 holds all three seats; the ride is full.\<close>

definition dbFull :: db where
  "dbFull =
     \<lparr>rides = [ride0\<lparr>availableSeats := 0, passengers := [entryOf 1 20 3 PConfirmed],
                      status := Full\<rparr>],
      bookings = [bookingOf 1 20 3 BConfirmed]\<rparr>"

text \<open>
  User 20 holds one confirmed seat and user 30 one pending seat; one seat is left, and
  the stored status is \<^verbatim>\<open>'full'\<close>, as \<^verbatim>\<open>updateStatus\<close> computes it for this ride.
\<close>

definition dbMixed :: db where
  "dbMixed =
     \<lparr>rides = [ride0\<lparr>availableSeats := 1,
                      passengers := [entryOf 1 20 1 PConfirmed, entryOf 2 30 1 PPending],
                      status := Full\<rparr>],
      bookings = [bookingOf 1 20 1 BConfirmed, bookingOf 2 30 1 BPending]\<rparr>"

text \<open>The ride of \<open>dbHeld\<close>, completed.\<close>

definition dbCompleted :: db where
  "dbCompleted =
     \<lparr>rides = [ride0\<lparr>availableSeats := 2, passengers := [entryOf 1 20 1 PConfirmed],
                      status := Completed\<rparr>],
      bookings = [bookingOf 1 20 1 BCompleted]\<rparr>"



section \<open>Properties\<close>

subsection \<open>Status recomputation\<close>

lemma isFull_status: "isFull (r\<lparr>status := s\<rparr>) = isFull r"
  by (simp add: isFull_def remainingSeats_def bookedSeats_def)

lemma isFull_completed: "isFull (r\<lparr>status := s, rideCompletedAt := c\<rparr>) = isFull r"
  by (simp add: isFull_def remainingSeats_def bookedSeats_def)

lemma isPast_status: "isPast now (r\<lparr>status := s\<rparr>) = isPast now r"
  by (simp add: isPast_def)

lemma isPast_completed: "isPast now (r\<lparr>status := s, rideCompletedAt := c\<rparr>) = isPast now r"
  by (simp add: isPast_def)

text \<open>
  C7. Recomputing the status of a ride is idempotent: at a fixed current instant,
  \<^verbatim>\<open>updateStatus\<close> applied twice gives the same ride, and so the same status, as
  applied once.
\<close>

theorem updateStatus_idempotent:
  "updateStatus now (updateStatus now r) = updateStatus now r"
  by (simp add: updateStatus_def Let_def isFull_status isFull_completed
        isPast_status isPast_completed)

subsection \<open>Refund\<close>




subsection \<open>Lookups in the store\<close>

lemma find_other_id:
  "rid r \<notin> rid ` set xs \<Longrightarrow> find (\<lambda>x. rid x = rid r \<and> P x) xs = None"
  by (induction xs) auto

lemma find_by_id:
  "distinct (map rid rs) \<Longrightarrow> r \<in> set rs \<Longrightarrow>
   find (\<lambda>x. rid x = rid r \<and> P x) rs = (if P r then Some r else None)"
proof (induction rs)
  case Nil
  then show ?case by simp
next
  case (Cons x xs)
  from Cons.prems(1) have fresh: "rid x \<notin> rid ` set xs" and dxs: "distinct (map rid xs)"
    by simp_all
  show ?case
  proof (cases "x = r")
    case True
    with fresh show ?thesis by (simp add: find_other_id)
  next
    case False
    with Cons.prems(2) have rxs: "r \<in> set xs" by simp
    with fresh have "rid x \<noteq> rid r" by (metis imageI)
    with Cons.IH [OF dxs rxs] show ?thesis by simp
  qed
qed

lemma Ride_findById_stored:
  assumes "distinct (map rid (rides d))" and "r \<in> set (rides d)"
  shows "Ride_findById d (rid r) = (if status r \<noteq> Cancelled then Some r else None)"
  unfolding Ride_findById_def
  using find_by_id [OF assms, of "\<lambda>x. status x \<noteq> Cancelled"] by simp

lemma Booking_findActive_held:
  assumes "b \<in> set (bookings d)" and "bride b = rideId" and "bpassenger b = userId"
    and "bstatus b \<in> {BPending, BConfirmed}"
  shows "Booking_findActive d rideId userId \<noteq> None"
  unfolding Booking_findActive_def find_None_iff using assms by auto

lemma foldl_max_upper: "(x::nat) \<in> set xs \<Longrightarrow> x \<le> foldl max a xs"
proof (induction xs arbitrary: a)
  case Nil
  then show ?case by simp
next
  case (Cons y ys)
  have mono: "a \<le> foldl max a zs" for a :: nat and zs
    by (induction zs arbitrary: a) (auto intro: order_trans [OF max.cobounded1])
  show ?case
  proof (cases "x = y")
    case True
    have "y \<le> max a y" by simp
    also have "\<dots> \<le> foldl max (max a y) ys" by (rule mono)
    finally show ?thesis using True by simp
  next
    case False
    with Cons.prems have "x \<in> set ys" by simp
    from Cons.IH [OF this] show ?thesis by simp
  qed
qed

lemma newBookingId_fresh: "b \<in> set (bookings d) \<Longrightarrow> bid b \<noteq> newBookingId d"
proof -
  assume "b \<in> set (bookings d)"
  then have "bid b \<in> set (map bid (bookings d))" by simp
  then have "bid b \<le> foldl max 0 (map bid (bookings d))" by (rule foldl_max_upper)
  then show ?thesis by (simp add: newBookingId_def)
qed

text \<open>
  The index refuses a second active booking of the same passenger on the same ride,
  whoever tries to create it.
\<close>

lemma Booking_create_duplicate_rejected:
  assumes "b \<in> set (bookings d)" and "bride b = bride bookingData"
    and "bpassenger b = bpassenger bookingData"
    and "bstatus b \<in> {BPending, BConfirmed}" and "bstatus bookingData \<in> {BPending, BConfirmed}"
  shows "Booking_create d bookingData = None"
proof -
  note newBookingId_fresh [OF assms(1)]
  then have "list_ex (\<lambda>x. bid x \<noteq> newBookingId d \<and> bride x = bride bookingData \<and>
                      bpassenger x = bpassenger bookingData \<and>
                      bstatus x \<in> {BPending, BConfirmed}) (bookings d)"
    unfolding list_ex_iff using assms by blast
  with assms(5) show ?thesis
    by (simp add: Booking_create_def Booking_save_def indexAllows_def)
qed

text \<open>
  The inspect text of a populated user is the text of no id: it begins with a brace, and
  an id is written in hexadecimal digits.
\<close>

lemma hexOf_chars: "set (hexOf n v) \<subseteq> set ''0123456789abcdef''"
proof (induction n arbitrary: v)
  case 0
  then show ?case by simp
next
  case (Suc n)
  have "v mod 16 < length ''0123456789abcdef''" by simp
  then have "hexChar v \<in> set ''0123456789abcdef''"
    unfolding hexChar_def by (rule nth_mem)
  with Suc show ?case by auto
qed

lemma inspect_is_no_id: "inspectUser u \<noteq> idText v"
proof
  assume "inspectUser u = idText v"
  then have "CHR ''{'' \<in> set (idText v)"
    by (metis inspectUser_def append_Cons list.set_intros(1))
  with hexOf_chars [of 24 v] show False
    by (auto simp add: idText_def)
qed

subsection \<open>Booking a ride\<close>

text \<open>
  C2, as the code has it. A request whose seat count, as \<^verbatim>\<open>bookRide\<close> reads it with
  \<^verbatim>\<open>parseInt\<close>, is more than a stored ride has available always fails, creates no
  booking and leaves the database (capacity counter and roster included) as it was. The
  kind of the failure follows the order of the guards: a validation error when the seats
  value is absent or below 1 or the pickup point is missing, not found when the ride is
  cancelled (the find hook hides it), invalid state when the ride is not active, and
  capacity exceeded otherwise, that is for a well-formed request on an active ride.
\<close>

theorem bookRide_over_capacity:
  assumes "distinct (map rid (rides d))" and "r \<in> set (rides d)" and "rid r = rideId"
    and "parseIntSeats seatsReq = Some n" and "availableSeats r < n"
  shows "bookRide now d userId rideId seatsReq pickupPt =
     (Inl (if seatsRejected seatsReq \<or> pickupPt = None then ValidationError
           else if status r = Cancelled then NotFound
           else if status r \<noteq> Active then InvalidState
           else CapacityExceeded), d)"
  using assms(3,4,5) Ride_findById_stored [OF assms(1,2)]
  by (auto simp add: bookRide_def notEnoughSeats_def split: option.splits)

text \<open>User 30 asks for three seats where two are left: capacity exceeded, nothing written.\<close>

theorem bookRide_over_capacity_witness:
  "parseIntSeats (SeatsNum 3) = Some 3 \<and>
   bookRide 0 dbHeld 30 1 (SeatsNum 3) (Some ''Stop'') = (Inl CapacityExceeded, dbHeld)"
proof -
  let ?r = "ride0\<lparr>availableSeats := 2, passengers := [entryOf 1 20 1 PConfirmed]\<rparr>"
  have p: "parseIntSeats (SeatsNum 3) = Some 3"
    by (simp add: parseIntSeats_def)
  have "distinct (map rid (rides dbHeld))" and "?r \<in> set (rides dbHeld)" and "rid ?r = 1"
    by (simp_all add: dbHeld_def ride0_def)
  moreover note p
  moreover have "availableSeats ?r < 3" by simp
  ultimately have "bookRide 0 dbHeld 30 1 (SeatsNum 3) (Some ''Stop'') =
     (Inl (if seatsRejected (SeatsNum 3) \<or> Some ''Stop'' = None then ValidationError
           else if status ?r = Cancelled then NotFound
           else if status ?r \<noteq> Active then InvalidState
           else CapacityExceeded), dbHeld)"
    by (rule bookRide_over_capacity)
  with p show ?thesis
    by (simp add: ride0_def seatsRejected_def)
qed

text \<open>
  Requests for more seats than are left that do not end in the capacity error with
  nothing written:
  \<^item> on the full ride (no seat left) a request for one seat, and on the completed ride
    (two seats left) a request for three, are refused because of the ride's status;
  \<^item> on the fresh ride (three seats) a request for \<open>10\<^sup>2\<^sup>1\<close> seats, whose text
    \<^verbatim>\<open>1e+21\<close> \<^verbatim>\<open>parseInt\<close> reads as 1, books one seat;
  \<^item> where two seats are left, a request for 2.5 seats, read as 2, passes the capacity
    guard: the booking is created and the post-save hook takes the two seats, then
    \<^verbatim>\<open>ride.save()\<close> fails the validator of \<^verbatim>\<open>availableSeats\<close> (at least 1) and the
    answer is 500.
\<close>

theorem bookRide_over_capacity_counterexample:
  "map availableSeats (rides dbFull) = [0] \<and>
   bookRide 0 dbFull 30 1 (SeatsNum 1) (Some ''Stop'') = (Inl InvalidState, dbFull) \<and>
   map availableSeats (rides dbCompleted) = [2] \<and>
   bookRide 0 dbCompleted 30 1 (SeatsNum 3) (Some ''Stop'') = (Inl InvalidState, dbCompleted) \<and>
   map availableSeats (rides db0) = [3] \<and>
   fst (bookRide 0 db0 20 1 (SeatsHuge ''1e+21'') (Some ''Stop'')) = Inr (bookingOf 1 20 1 BConfirmed) \<and>
   map seatsBooked (bookings (snd (bookRide 0 db0 20 1 (SeatsHuge ''1e+21'') (Some ''Stop'')))) = [1] \<and>
   map availableSeats (rides (snd (bookRide 0 db0 20 1 (SeatsHuge ''1e+21'') (Some ''Stop'')))) = [2] \<and>
   fst (bookRide 0 dbHeld 30 1 (SeatsNum (5 / 2)) (Some ''Stop'')) = Inl ServerError \<and>
   map seatsBooked (bookings (snd (bookRide 0 dbHeld 30 1 (SeatsNum (5 / 2)) (Some ''Stop'')))) = [1, 2] \<and>
   map availableSeats (rides (snd (bookRide 0 dbHeld 30 1 (SeatsNum (5 / 2)) (Some ''Stop'')))) = [0]"
  by code_simp

text \<open>
  C3, as the code has it. When the passenger already holds a pending or confirmed booking
  on the ride, \<^verbatim>\<open>bookRide\<close> fails and the database is unchanged, so no second booking
  exists. The failure is the duplicate-passenger one when the request passes the guards
  that come first: the request is well-formed, the ride is found and active, it has
  enough seats, and the passenger is not its driver.
\<close>

theorem bookRide_duplicate:
  assumes "b \<in> set (bookings d)" and "bride b = rideId" and "bpassenger b = userId"
    and "bstatus b \<in> {BPending, BConfirmed}"
  shows "bookRide now d userId rideId seatsReq pickupPt =
     (Inl (if seatsRejected seatsReq \<or> pickupPt = None then ValidationError
           else case Ride_findById d rideId of
                  None \<Rightarrow> NotFound
                | Some r \<Rightarrow>
                    if status r \<noteq> Active then InvalidState
                    else if notEnoughSeats r seatsReq then CapacityExceeded
                    else if driver r = userId then OwnRide
                    else DuplicatePassenger), d)"
  using Booking_findActive_held [OF assms]
  by (auto simp add: bookRide_def split: option.splits)

text \<open>User 20, who holds a confirmed seat, asks for one more of the two seats left.\<close>

theorem bookRide_duplicate_witness:
  "bookRide 0 dbHeld 20 1 (SeatsNum 1) (Some ''Stop'') = (Inl DuplicatePassenger, dbHeld)"
proof -
  let ?b = "bookingOf 1 20 1 BConfirmed"
  have "?b \<in> set (bookings dbHeld)" and "bride ?b = 1" and "bpassenger ?b = 20"
    and "bstatus ?b \<in> {BPending, BConfirmed}"
    by (simp_all add: dbHeld_def bookingOf_def)
  from bookRide_duplicate [OF this, of 0 "SeatsNum 1" "Some ''Stop''"] show ?thesis
    by (simp add: Ride_findById_def dbHeld_def ride0_def seatsRejected_def
        notEnoughSeats_def parseIntSeats_def)
qed

text \<open>
  The same passenger asking for three seats where two are left is refused for capacity,
  and on the full ride for the ride's status.
\<close>

theorem bookRide_duplicate_counterexample:
  "map bstatus (bookings dbHeld) = [BConfirmed] \<and>
   bookRide 0 dbHeld 20 1 (SeatsNum 3) (Some ''Stop'') = (Inl CapacityExceeded, dbHeld) \<and>
   map bstatus (bookings dbFull) = [BConfirmed] \<and>
   bookRide 0 dbFull 20 1 (SeatsNum 1) (Some ''Stop'') = (Inl InvalidState, dbFull)"
  by code_simp

text \<open>
  C10. A request by the driver of a stored ride for a seat on that ride always fails,
  creates no booking and leaves the database as it was; when every earlier guard passes
  the failure is ``Cannot book your own ride''.
\<close>

theorem bookRide_own_ride:
  assumes "distinct (map rid (rides d))" and "r \<in> set (rides d)" and "rid r = rideId"
    and "driver r = userId"
  shows "bookRide now d userId rideId seatsReq pickupPt =
     (Inl (if seatsRejected seatsReq \<or> pickupPt = None then ValidationError
           else if status r = Cancelled then NotFound
           else if status r \<noteq> Active then InvalidState
           else if notEnoughSeats r seatsReq then CapacityExceeded
           else OwnRide), d)"
  using assms(3,4) Ride_findById_stored [OF assms(1,2)]
  by (auto simp add: bookRide_def split: option.splits)

theorem bookRide_own_ride_witness:
  "bookRide 0 db0 10 1 (SeatsNum 1) (Some ''Stop'') = (Inl OwnRide, db0)"
proof -
  have "distinct (map rid (rides db0))" and "ride0 \<in> set (rides db0)" and "rid ride0 = 1"
    and "driver ride0 = 10"
    by (simp_all add: db0_def ride0_def)
  from bookRide_own_ride [OF this, of 0 "SeatsNum 1" "Some ''Stop''"] show ?thesis
    by (simp add: ride0_def seatsRejected_def notEnoughSeats_def parseIntSeats_def)
qed

text \<open>
  C1 at a failing run. On the fresh three-seat ride user 20 books two seats. The
  post-save hook of the booking takes the two seats from the stored ride and adds a
  roster entry; the controller then stores its own count and pushes a second entry. The
  stored ride has one available seat and two confirmed roster entries of two seats: the
  counter is 1, three seats minus the booked seats is \<open>-1\<close>, and the virtual
  \<^verbatim>\<open>remainingSeats\<close> is \<open>-3\<close>.
\<close>

theorem bookRide_doubles_roster:
  "map availableSeats (rides db0) = [3] \<and> map bookedSeats (rides db0) = [0] \<and>
   fst (bookRide 0 db0 20 1 (SeatsNum 2) (Some ''Stop'')) = Inr (bookingOf 1 20 2 BConfirmed) \<and>
   map availableSeats (rides (snd (bookRide 0 db0 20 1 (SeatsNum 2) (Some ''Stop'')))) = [1] \<and>
   map (map seats \<circ> passengers) (rides (snd (bookRide 0 db0 20 1 (SeatsNum 2) (Some ''Stop'')))) = [[2, 2]] \<and>
   map bookedSeats (rides (snd (bookRide 0 db0 20 1 (SeatsNum 2) (Some ''Stop'')))) = [4] \<and>
   map remainingSeats (rides (snd (bookRide 0 db0 20 1 (SeatsNum 2) (Some ''Stop'')))) = [- 3]"
  by code_simp

subsection \<open>Cancelling a booking, cancelling a ride\<close>

text \<open>
  The ownership guards of \<^verbatim>\<open>cancelBooking\<close> and \<^verbatim>\<open>cancelRide\<close> refuse every user, the
  passenger of the booking and the driver of the ride included, and \<^verbatim>\<open>submitRating\<close>
  writes nothing.
\<close>

lemma cancelBooking_refused:
  "cancelBooking now d userId bookingId =
     (Inl (case Booking_findById d bookingId of None \<Rightarrow> NotFound | Some b \<Rightarrow> Forbidden), d)"
  by (simp add: cancelBooking_def inspect_is_no_id split: option.splits)

lemma cancelRide_refused:
  "cancelRide now d userId rideId =
     (Inl (case Ride_findById d rideId of None \<Rightarrow> NotFound | Some r \<Rightarrow> Forbidden), d)"
  by (simp add: cancelRide_def inspect_is_no_id split: option.splits)

lemma submitRating_writes_nothing:
  "snd (submitRating now d userId bookingId body) = d \<and>
   isl (fst (submitRating now d userId bookingId body))"
  by (simp add: submitRating_def split: option.splits)

lemma cancelBooking_never_window_closed:
  "fst (cancelBooking now d userId bookingId) \<noteq> Inl CancellationWindowClosed"
  by (simp add: cancelBooking_refused split: option.splits)

text \<open>
  C5 at a failing run. User 20 holds one confirmed seat (booking 1) and two seats are
  left. The passenger's own \<^verbatim>\<open>cancelBooking\<close> is answered 403 and nothing is written: the
  seat is not credited and the booking stays confirmed.
\<close>

theorem cancelBooking_credits_nothing:
  "map seatsBooked (bookings dbHeld) = [1] \<and> map bpassenger (bookings dbHeld) = [20] \<and>
   map bstatus (bookings dbHeld) = [BConfirmed] \<and> map availableSeats (rides dbHeld) = [2] \<and>
   cancelBooking 0 dbHeld 20 1 = (Inl Forbidden, dbHeld)"
  by code_simp

text \<open>
  C6 at a failing run. At 09:00 of the day of the ride, half an hour before it departs,
  the ride is not past and \<^verbatim>\<open>canBeCancelled\<close> is false for the confirmed booking of user
  20. \<^verbatim>\<open>cancelBooking\<close>, which does not consult it, fails with 403, as it does at any
  other time, and not because the window is closed.
\<close>

theorem cancelBooking_inside_window:
  "isPast 2624400000 (hd (rides dbHeld)) = False \<and>
   hoursUntilDeparture 2624400000 (hd (rides dbHeld)) = Some (1 / 2) \<and>
   canBeCancelled 2624400000 (bookingOf 1 20 1 BConfirmed) (Populated (hd (rides dbHeld))) = Some False \<and>
   cancelBooking 2624400000 dbHeld 20 1 = (Inl Forbidden, dbHeld)"
  by code_simp

text \<open>
  C8 at two failing runs. The driver's own \<^verbatim>\<open>cancelRide\<close> is answered 403 and nothing is
  written: the confirmed and pending bookings keep their status and the ride keeps its
  status.
\<close>

theorem cancelRide_cancels_nothing:
  "map driver (rides dbMixed) = [10] \<and>
   cancelRide 0 dbMixed 10 1 = (Inl Forbidden, dbMixed) \<and>
   map bstatus (bookings dbMixed) = [BConfirmed, BPending] \<and>
   map status (rides dbMixed) = [Full] \<and>
   cancelRide 0 dbHeld 10 1 = (Inl Forbidden, dbHeld) \<and>
   map bstatus (bookings dbHeld) = [BConfirmed] \<and>
   map status (rides dbHeld) = [Active]"
  by code_simp

subsection \<open>Rating a booking\<close>




end
